theory Spec2Isabelle
  imports Complex_Main "HOL-Library.AList_Mapping"
begin

section \<open>The energy-accounting engine of coordinator.py\<close>

text \<open>
  The development embeds \<^verbatim>\<open>EnergyStatsCoordinator\<close> of
  \<^verbatim>\<open>custom_components/energy_stats/coordinator.py\<close>.

  Conventions of the embedding:
  \<^item> Python floats are modelled as real numbers: the arithmetic is the ideal one, without
    binary rounding, overflow, infinities or NaN. A result of the code agrees with the
    embedding up to the rounding error of binary64 (\<^verbatim>\<open>(1 - 0.8) * 500\<close> is 100 here
    and 99.99999999999997 there), and a reading is always a finite number: the state strings
    \<^verbatim>\<open>nan\<close> and \<^verbatim>\<open>inf\<close>, which \<^verbatim>\<open>float()\<close> also accepts, have no counterpart.
  \<^item> Python's \<^verbatim>\<open>True\<close>/\<^verbatim>\<open>False\<close> behave as 1/0 in every arithmetic
    operation, comparison and truth test of the cycle, so a boolean reading is kept as its
    numeric value once it has been acquired.
  \<^item> Instants (\<^verbatim>\<open>datetime\<close> values) are seconds on the UTC time line.
  \<^item> A \<^verbatim>\<open>dict\<close> is a finite mapping; \<^verbatim>\<open>d.get(k, 0.0)\<close> is
    \<open>Mapping.lookup_default 0 d k\<close> and \<^verbatim>\<open>d.get(k)\<close> is \<open>Mapping.lookup d k\<close>.
  \<^item> An exception is a value \<open>Inl e\<close>; the attributes of \<^verbatim>\<open>self\<close> mutated before
    the exception was raised stay mutated, so a cycle returns the engine together with its
    outcome.
\<close>

type_synonym dict = "(string, real) mapping"

datatype error = UpdateFailed string | ZeroDivisionError

definition py_div :: "real \<Rightarrow> real \<Rightarrow> error + real" where
  "py_div a b = (if b = 0 then Inl ZeroDivisionError else Inr (a / b))"

text \<open>\<^verbatim>\<open>int(x)\<close> truncates towards zero.\<close>

definition py_int :: "real \<Rightarrow> int" where
  "py_int x = (if 0 \<le> x then \<lfloor>x\<rfloor> else \<lceil>x\<rceil>)"

text \<open>
  \<^verbatim>\<open>round(x, n)\<close> rounds to \<open>n\<close> decimals, ties to the even neighbour. Python applies
  this to the binary value of its argument, which never lies exactly half-way between two
  multiples of 0.001; where the exact sum of the embedding does (1.8 W over 5 s give 0.0025),
  the code takes the neighbour on the side of the binary value (0.003, where the function
  below gives 0.002).
\<close>

definition py_round :: "real \<Rightarrow> nat \<Rightarrow> real" where
  "py_round x n =
     (let m = x * 10 ^ n;
          f = \<lfloor>m\<rfloor>;
          d = m - of_int f;
          r = (if d < 1 / 2 then f
               else if 1 / 2 < d then f + 1
               else if even f then f else f + 1)
      in of_int r / 10 ^ n)"

subsection \<open>Sample acquisition\<close>

text \<open>
  The state of an entity as \<^verbatim>\<open>get_value\<close> sees it: \<open>Numeric v\<close> is a state string
  that \<^verbatim>\<open>float()\<close> parses to the finite number \<open>v\<close>, \<open>Text s\<close> a string that
  \<^verbatim>\<open>float()\<close> rejects, \<open>NoState\<close> the state \<^verbatim>\<open>None\<close>.
\<close>

datatype state_value = Numeric real | Text string | NoState

record entity =
  st_state :: state_value
  unit_of_measurement :: "string option"

datatype pyval = Float real | Bool bool

definition num :: "pyval \<Rightarrow> real" where
  "num v = (case v of Float x \<Rightarrow> x | Bool b \<Rightarrow> (if b then 1 else 0))"

definition lower_char :: "char \<Rightarrow> char" where
  "lower_char c =
     (case map_of (zip ''ABCDEFGHIJKLMNOPQRSTUVWXYZ'' ''abcdefghijklmnopqrstuvwxyz'') c of
        Some l \<Rightarrow> l
      | None \<Rightarrow> c)"

definition lower :: "string \<Rightarrow> string" where
  "lower s = map lower_char s"

definition get_value :: "(string \<Rightarrow> entity option) \<Rightarrow> string \<Rightarrow> pyval option" where
  "get_value states entity_id =
     (if entity_id = [] then None
      else case states entity_id of
        None \<Rightarrow> None
      | Some st \<Rightarrow>
          (case st_state st of
             NoState \<Rightarrow> None
           | Text s \<Rightarrow>
               if s = ''unknown'' \<or> s = ''unavailable'' then None
               else if s = ''on'' then Some (Bool True)
               else if s = ''off'' then Some (Bool False)
               else None
           | Numeric val \<Rightarrow>
               (case unit_of_measurement st of
                  None \<Rightarrow> Some (Float val)
                | Some unit \<Rightarrow>
                    if unit = [] then Some (Float val)
                    else
                      let unit = lower unit;
                          val = (if unit \<in> set [''kw'', ''kwatt'', ''kilowatt'']
                                 then val * 1000 else val);
                          val = (if unit \<in> set [''kwh'', ''kwhours'', ''kilowatt-hour'',
                                                 ''kilowatt hour'']
                                 then val * 1000 else val)
                      in Some (Float val))))"

definition SENSOR_KEYS :: "string list" where
  "SENSOR_KEYS =
     [''grid_power'', ''grid_in_energy'', ''grid_out_energy'', ''battery_power'',
      ''battery_energy'', ''pv_power'', ''pv_energy'', ''car_charging_power'',
      ''car_charging_limit_power'', ''car_charging_energy'', ''car_connected'', ''car_soc'']"

text \<open>
  The loop that fills \<^verbatim>\<open>raw_vals\<close>: a key without a configured entity keeps the value
  \<^verbatim>\<open>None\<close> (no entry), a configured entity without a value raises.
\<close>

fun read_raw_vals ::
  "(string \<Rightarrow> string option) \<Rightarrow> (string \<Rightarrow> entity option) \<Rightarrow> string list \<Rightarrow> dict \<Rightarrow> error + dict"
where
  "read_raw_vals sensors states [] raw_vals = Inr raw_vals"
| "read_raw_vals sensors states (key # keys) raw_vals =
     (case sensors key of
        None \<Rightarrow> read_raw_vals sensors states keys raw_vals
      | Some entity_id \<Rightarrow>
          (case get_value states entity_id of
             None \<Rightarrow> Inl (UpdateFailed (''Entity '' @ entity_id @ '' is not ready!''))
           | Some v \<Rightarrow>
               read_raw_vals sensors states keys (Mapping.update key (num v) raw_vals)))"

subsection \<open>Engine state\<close>

record snapshot =
  snap_energy_sums :: dict
  snap_pv_sums :: dict
  snap_grid_sums :: dict
  snap_energy_baselines :: dict
  snap_last_reset :: real
  snap_car_connected_was :: bool

record engine =
  energy_sums :: dict
  energy_baselines :: dict
  pv_sums :: dict
  grid_sums :: dict
  last_reset :: real
  car_connected_was :: bool
  last_update :: "real option"
  calculated_keys :: "string list"
  store :: "snapshot option"

text \<open>The state the constructor leaves, at instant \<open>t\<close>, with nothing persisted yet.\<close>

definition init_engine :: "real \<Rightarrow> engine" where
  "init_engine t =
     \<lparr>energy_sums = Mapping.empty, energy_baselines = Mapping.empty,
      pv_sums = Mapping.empty, grid_sums = Mapping.empty,
      last_reset = t, car_connected_was = False,
      last_update = Some t, calculated_keys = [], store = None\<rparr>"

text \<open>What one cycle reads from outside: three clock readings, the entity states, and
  whether the write to the store succeeds.\<close>

record cycle_input =
  now_init :: real
  now :: real
  reset_time_utc :: real
  hass_states :: "string \<Rightarrow> entity option"
  save_ok :: bool

subsection \<open>The integrator and the apportioner\<close>

definition update_energy ::
  "string \<Rightarrow> real option \<Rightarrow> real option \<Rightarrow> real \<Rightarrow> engine \<Rightarrow> engine"
where
  "update_energy key energy_sensor_value power_sensor_value elapsed_h s =
     (case energy_sensor_value of
        Some ev \<Rightarrow>
          (let s1 = (case Mapping.lookup (energy_baselines s) key of
                       None \<Rightarrow> s\<lparr>energy_baselines := Mapping.update key ev (energy_baselines s)\<rparr>
                     | Some b \<Rightarrow> s);
               baseline = (case Mapping.lookup (energy_baselines s) key of
                             None \<Rightarrow> ev | Some b \<Rightarrow> b)
           in s1\<lparr>calculated_keys := calculated_keys s1 @ [key],
                 energy_sums := Mapping.update key (max 0 (ev - baseline)) (energy_sums s1)\<rparr>)
      | None \<Rightarrow>
          (case power_sensor_value of
             Some pv \<Rightarrow>
               if 0 < elapsed_h \<and> 0 < pv then
                 (let prev = Mapping.lookup_default 0 (energy_sums s) key
                  in s\<lparr>energy_sums := Mapping.update key (py_round (prev + pv * elapsed_h) 3)
                                          (energy_sums s),
                       calculated_keys := calculated_keys s @ [key]\<rparr>)
               else s
           | None \<Rightarrow> s))"

text \<open>
  \<^verbatim>\<open>_add_mix_energy(key, pv_power, grid_power, battery_power, battery_pv_factor,
  elapsed_h, usage_factor)\<close>, with its parameters in the order of the signature.
\<close>

definition add_mix_energy ::
  "string \<Rightarrow> real option \<Rightarrow> real option \<Rightarrow> real option \<Rightarrow> real option \<Rightarrow> real \<Rightarrow> real option
     \<Rightarrow> engine \<Rightarrow> engine"
where
  "add_mix_energy key pv_power grid_power battery_power battery_pv_factor elapsed_h
       usage_factor s =
     (let pv_power = (case pv_power of None \<Rightarrow> 0 | Some p \<Rightarrow> p) in
      case grid_power of
        None \<Rightarrow> s
      | Some grid_power \<Rightarrow>
          (let (pv_power, grid_power) =
                 (case battery_power of
                    None \<Rightarrow> (pv_power, grid_power)
                  | Some bp \<Rightarrow>
                      if 0 < bp then
                        (case battery_pv_factor of
                           Some f \<Rightarrow> (pv_power + f * bp, grid_power + (1 - f) * bp)
                         | None \<Rightarrow> (pv_power, grid_power + bp))
                      else (pv_power, grid_power + bp));
               pv_part = max 0 pv_power * elapsed_h;
               grid_part = max 0 grid_power * elapsed_h;
               (pv_part, grid_part) =
                 (case usage_factor of
                    None \<Rightarrow> (pv_part, grid_part)
                  | Some u \<Rightarrow> (pv_part * u, grid_part * u));
               pv_new = Mapping.lookup_default 0 (pv_sums s) key + pv_part;
               grid_new = Mapping.lookup_default 0 (grid_sums s) key + grid_part
           in s\<lparr>pv_sums := Mapping.update key (if pv_new < 0 then 0 else pv_new) (pv_sums s),
                grid_sums := Mapping.update key (if grid_new < 0 then 0 else grid_new)
                               (grid_sums s)\<rparr>))"

definition mix_ratio :: "engine \<Rightarrow> string \<Rightarrow> real" where
  "mix_ratio s key =
     (let pv_sum = Mapping.lookup_default 0 (pv_sums s) key;
          grid_sum = Mapping.lookup_default 0 (grid_sums s) key;
          total = pv_sum + grid_sum
      in if 0 < total then pv_sum / total else 0)"

subsection \<open>The stages of a cycle\<close>

text \<open>Cold start: an engine without totals takes the stored snapshot, or the empty state.\<close>

definition initialize :: "real \<Rightarrow> engine \<Rightarrow> engine" where
  "initialize t s =
     (if Mapping.is_empty (energy_sums s) then
        (case store s of
           Some stored \<Rightarrow>
             s\<lparr>energy_sums := snap_energy_sums stored,
               energy_baselines := snap_energy_baselines stored,
               pv_sums := snap_pv_sums stored,
               grid_sums := snap_grid_sums stored,
               last_reset := snap_last_reset stored,
               car_connected_was := snap_car_connected_was stored\<rparr>
         | None \<Rightarrow>
             s\<lparr>energy_sums := Mapping.empty, energy_baselines := Mapping.empty,
               pv_sums := Mapping.empty, grid_sums := Mapping.empty,
               last_reset := t, car_connected_was := False\<rparr>)
      else s)"

definition elapsed_hours :: "real \<Rightarrow> engine \<Rightarrow> real" where
  "elapsed_hours t s = (case last_update s of Some u \<Rightarrow> (t - u) / 3600 | None \<Rightarrow> 0)"

text \<open>Start of the cycle up to the raw values: the engine, and the raw values with the
  elapsed hours unless a configured entity is not ready.\<close>

definition acquire ::
  "(string \<Rightarrow> string option) \<Rightarrow> cycle_input \<Rightarrow> engine \<Rightarrow> engine \<times> (error + dict \<times> real)"
where
  "acquire sensors inp s =
     (let s0 = initialize (now_init inp) s;
          elapsed_h = elapsed_hours (now inp) s0;
          s1 = s0\<lparr>last_update := Some (now inp), calculated_keys := []\<rparr>
      in case read_raw_vals sensors (hass_states inp) SENSOR_KEYS Mapping.empty of
           Inl e \<Rightarrow> (s1, Inl e)
         | Inr raw_vals \<Rightarrow> (s1, Inr (raw_vals, elapsed_h)))"

definition copy_key :: "dict \<Rightarrow> string \<Rightarrow> dict \<Rightarrow> dict" where
  "copy_key raw_vals key result =
     (case Mapping.lookup raw_vals key of
        Some v \<Rightarrow> Mapping.update key v result
      | None \<Rightarrow> result)"

definition momentary :: "dict \<Rightarrow> dict" where
  "momentary raw_vals =
     (let result = Mapping.empty;
          result = copy_key raw_vals ''grid_power'' result;
          result = copy_key raw_vals ''car_charging_power'' result;
          result = copy_key raw_vals ''car_charging_limit_power'' result;
          result = copy_key raw_vals ''pv_power'' result;
          result = copy_key raw_vals ''battery_power'' result;
          result = Mapping.update ''home_power''
                     (Mapping.lookup_default 0 result ''grid_power''
                      + Mapping.lookup_default 0 result ''pv_power''
                      + Mapping.lookup_default 0 result ''battery_power''
                      - Mapping.lookup_default 0 result ''car_charging_power'') result;
          result = (case Mapping.lookup raw_vals ''car_connected'' of
                      Some v \<Rightarrow> Mapping.update ''car_connected'' (of_int (py_int v)) result
                    | None \<Rightarrow> result);
          result = copy_key raw_vals ''car_soc'' result
      in result)"

definition energies :: "dict \<Rightarrow> dict \<Rightarrow> real \<Rightarrow> engine \<Rightarrow> engine" where
  "energies raw_vals result elapsed_h s =
     (let s = (case Mapping.lookup raw_vals ''battery_energy'' of
                 Some v \<Rightarrow> s\<lparr>energy_sums := Mapping.update ''battery_energy'' v (energy_sums s)\<rparr>
               | None \<Rightarrow> s);
          s = update_energy ''grid_in_energy_daily''
                (Mapping.lookup raw_vals ''grid_in_energy'')
                (Mapping.lookup raw_vals ''grid_power'') elapsed_h s;
          s = update_energy ''grid_out_energy_daily''
                (Mapping.lookup raw_vals ''grid_out_energy'')
                (map_option uminus (Mapping.lookup raw_vals ''grid_power'')) elapsed_h s;
          s = update_energy ''pv_energy_daily''
                (Mapping.lookup raw_vals ''pv_energy'')
                (Mapping.lookup raw_vals ''pv_power'') elapsed_h s;
          s = update_energy ''car_charging_energy''
                (Mapping.lookup raw_vals ''car_charging_energy'')
                (Mapping.lookup raw_vals ''car_charging_power'') elapsed_h s;
          s = update_energy ''home_energy_daily'' None
                (Some (Mapping.lookup_default 0 result ''home_power'')) elapsed_h s
      in s)"

text \<open>\<^verbatim>\<open>result.update(dict(self._energy_sums.items()))\<close>: the totals win.\<close>

definition publish_sums :: "dict \<Rightarrow> engine \<Rightarrow> dict" where
  "publish_sums result s = Mapping.combine (\<lambda>old new. new) result (energy_sums s)"

text \<open>
  The battery mix. Both calls pass \<^verbatim>\<open>elapsed_h\<close> as the fourth positional argument,
  which is the parameter \<^verbatim>\<open>battery_power\<close>; \<^verbatim>\<open>battery_pv_factor\<close> and
  \<^verbatim>\<open>elapsed_h\<close> keep their defaults \<^verbatim>\<open>None\<close> and \<^verbatim>\<open>0.0\<close>.
\<close>

definition battery_mix :: "dict \<Rightarrow> real \<Rightarrow> engine \<times> dict \<Rightarrow> error + engine \<times> dict" where
  "battery_mix raw_vals elapsed_h sr =
     (let (s, result) = sr in
      case Mapping.lookup raw_vals ''battery_power'' of
        None \<Rightarrow> Inr (s, result)
      | Some bp \<Rightarrow>
          (let called =
                 (if 0 < bp then
                    Inr (add_mix_energy ''battery_energy''
                           (Some (- Mapping.lookup_default 0 result ''battery_power''
                                    * Mapping.lookup_default 0 result ''battery_energy_mix''))
                           (Some (- Mapping.lookup_default 0 result ''battery_power''
                                    * (1 - Mapping.lookup_default 0 result ''battery_energy_mix'')))
                           (Some elapsed_h) None 0 None s)
                  else
                    (case py_div (- Mapping.lookup_default 0 result ''battery_power'')
                            (Mapping.lookup_default 0 result ''pv_power''
                             + Mapping.lookup_default 0 result ''grid_power'') of
                       Inl e \<Rightarrow> Inl e
                     | Inr usage_factor \<Rightarrow>
                         Inr (add_mix_energy ''battery_energy''
                                (Some (Mapping.lookup_default 0 result ''pv_power''))
                                (Some (Mapping.lookup_default 0 result ''grid_power''))
                                (Some elapsed_h) None 0 (Some usage_factor) s)))
           in case called of
                Inl e \<Rightarrow> Inl e
              | Inr s' \<Rightarrow>
                  Inr (s'\<lparr>calculated_keys := calculated_keys s' @ [''battery_energy_mix'']\<rparr>,
                       Mapping.update ''battery_energy_mix'' (mix_ratio s' ''battery_energy'')
                         result)))"

definition home_mix :: "real \<Rightarrow> engine \<times> dict \<Rightarrow> error + engine \<times> dict" where
  "home_mix elapsed_h sr =
     (let (s, result) = sr in
      case py_div (Mapping.lookup_default 0 result ''home_power'')
             (Mapping.lookup_default 0 result ''home_power''
              + Mapping.lookup_default 0 result ''car_charging_power'') of
        Inl e \<Rightarrow> Inl e
      | Inr usage_factor \<Rightarrow>
          (let s' = add_mix_energy ''home_energy_daily''
                      (Some (Mapping.lookup_default 0 result ''pv_power''))
                      (Some (Mapping.lookup_default 0 result ''grid_power''))
                      (Some (Mapping.lookup_default 0 result ''battery_power''))
                      (Some (Mapping.lookup_default 0 result ''battery_energy_mix''))
                      elapsed_h (Some usage_factor) s
           in Inr (s'\<lparr>calculated_keys := calculated_keys s' @ [''home_energy_mix_daily'']\<rparr>,
                   Mapping.update ''home_energy_mix_daily'' (mix_ratio s' ''home_energy_daily'')
                     result)))"

definition car_mix :: "dict \<Rightarrow> real \<Rightarrow> engine \<times> dict \<Rightarrow> error + engine \<times> dict" where
  "car_mix raw_vals elapsed_h sr =
     (let (s, result) = sr in
      case Mapping.lookup raw_vals ''car_charging_power'' of
        None \<Rightarrow> Inr (s, result)
      | Some cp \<Rightarrow>
          (case py_div (Mapping.lookup_default 0 result ''car_charging_power'')
                  (Mapping.lookup_default 0 result ''home_power''
                   + Mapping.lookup_default 0 result ''car_charging_power'') of
             Inl e \<Rightarrow> Inl e
           | Inr usage_factor \<Rightarrow>
               (let s' = add_mix_energy ''car_charging_energy''
                           (Some (Mapping.lookup_default 0 result ''pv_power''))
                           (Some (Mapping.lookup_default 0 result ''grid_power''))
                           (Some (Mapping.lookup_default 0 result ''battery_power''))
                           (Some (Mapping.lookup_default 0 result ''battery_energy_mix''))
                           elapsed_h (Some usage_factor) s
                in Inr (s'\<lparr>calculated_keys :=
                              calculated_keys s' @ [''car_charging_energy_mix'']\<rparr>,
                        Mapping.update ''car_charging_energy_mix''
                          (mix_ratio s' ''car_charging_energy'') result))))"

text \<open>From the raw values to the end of the mix updates. A division by zero leaves the
  engine as the statements before it made it.\<close>

definition account :: "dict \<Rightarrow> real \<Rightarrow> engine \<Rightarrow> engine \<times> (error + dict)" where
  "account raw_vals elapsed_h s =
     (let result = momentary raw_vals;
          s1 = energies raw_vals result elapsed_h s;
          result = publish_sums result s1
      in case battery_mix raw_vals elapsed_h (s1, result) of
           Inl e \<Rightarrow> (s1, Inl e)
         | Inr (s2, result) \<Rightarrow>
             (case home_mix elapsed_h (s2, result) of
                Inl e \<Rightarrow> (s2, Inl e)
              | Inr (s3, result) \<Rightarrow>
                  (case car_mix raw_vals elapsed_h (s3, result) of
                     Inl e \<Rightarrow> (s3, Inl e)
                   | Inr (s4, result) \<Rightarrow> (s4, Inr result))))"

subsection \<open>Resets and persistence\<close>

definition daily_reset_due :: "cycle_input \<Rightarrow> engine \<Rightarrow> bool" where
  "daily_reset_due inp s \<longleftrightarrow>
     reset_time_utc inp \<le> now inp \<and> last_reset s < reset_time_utc inp"

definition daily_reset :: "real \<Rightarrow> engine \<Rightarrow> engine" where
  "daily_reset t s =
     s\<lparr>energy_sums :=
         Mapping.update ''car_charging_energy''
           (Mapping.lookup_default 0 (energy_sums s) ''car_charging_energy'') Mapping.empty,
       energy_baselines :=
         Mapping.update ''car_charging_energy''
           (Mapping.lookup_default 0 (energy_baselines s) ''car_charging_energy'') Mapping.empty,
       pv_sums :=
         Mapping.update ''battery_energy''
           (Mapping.lookup_default 0 (pv_sums s) ''battery_energy'') Mapping.empty,
       grid_sums :=
         Mapping.update ''battery_energy''
           (Mapping.lookup_default 0 (grid_sums s) ''battery_energy'') Mapping.empty,
       last_reset := t\<rparr>"

definition daily_check :: "cycle_input \<Rightarrow> engine \<Rightarrow> engine" where
  "daily_check inp s = (if daily_reset_due inp s then daily_reset (now inp) s else s)"

definition car_reset :: "dict \<Rightarrow> engine \<Rightarrow> engine" where
  "car_reset result s =
     (let connected = (Mapping.lookup_default 0 result ''car_connected'' \<noteq> 0);
          s = (if \<not> car_connected_was s \<and> connected then
                 s\<lparr>energy_sums := Mapping.update ''car_charging_energy'' 0 (energy_sums s),
                   energy_baselines :=
                     Mapping.update ''car_charging_energy''
                       (Mapping.lookup_default 0 result ''car_charging_energy'')
                       (energy_baselines s)\<rparr>
               else s)
      in s\<lparr>car_connected_was := connected\<rparr>)"

definition snapshot_of :: "engine \<Rightarrow> snapshot" where
  "snapshot_of s =
     \<lparr>snap_energy_sums = energy_sums s, snap_pv_sums = pv_sums s,
      snap_grid_sums = grid_sums s, snap_energy_baselines = energy_baselines s,
      snap_last_reset = last_reset s, snap_car_connected_was = car_connected_was s\<rparr>"

definition persist :: "bool \<Rightarrow> engine \<Rightarrow> engine" where
  "persist ok s = (if ok then s\<lparr>store := Some (snapshot_of s)\<rparr> else s)"

subsection \<open>The cycle\<close>

record outcome =
  out_result :: dict
  out_calculated_keys :: "string list"

definition cycle ::
  "(string \<Rightarrow> string option) \<Rightarrow> cycle_input \<Rightarrow> engine \<Rightarrow> engine \<times> (error + outcome)"
where
  "cycle sensors inp s =
     (case acquire sensors inp s of
        (s1, Inl e) \<Rightarrow> (s1, Inl e)
      | (s1, Inr (raw_vals, elapsed_h)) \<Rightarrow>
          (case account raw_vals elapsed_h s1 of
             (s2, Inl e) \<Rightarrow> (s2, Inl e)
           | (s2, Inr result) \<Rightarrow>
               (let s3 = daily_check inp s2;
                    s4 = car_reset result s3;
                    s5 = persist (save_ok inp) s4
                in (s5, Inr \<lparr>out_result = result, out_calculated_keys = calculated_keys s5\<rparr>))))"

text \<open>The engine after a sequence of cycles, whether they complete or abort.\<close>

fun run :: "(string \<Rightarrow> string option) \<Rightarrow> cycle_input list \<Rightarrow> engine \<Rightarrow> engine" where
  "run sensors [] s = s"
| "run sensors (inp # inps) s = run sensors inps (fst (cycle sensors inp s))"

subsection \<open>Reading the accounts\<close>

text \<open>The reads the code itself performs: a total and a mix sum with
  \<^verbatim>\<open>.get(key, 0.0)\<close>, a baseline with \<^verbatim>\<open>.get(key)\<close>.\<close>

definition total :: "engine \<Rightarrow> string \<Rightarrow> real" where
  "total s key = Mapping.lookup_default 0 (energy_sums s) key"

definition baseline :: "engine \<Rightarrow> string \<Rightarrow> real option" where
  "baseline s key = Mapping.lookup (energy_baselines s) key"

definition pv_sum :: "engine \<Rightarrow> string \<Rightarrow> real" where
  "pv_sum s key = Mapping.lookup_default 0 (pv_sums s) key"

definition grid_sum :: "engine \<Rightarrow> string \<Rightarrow> real" where
  "grid_sum s key = Mapping.lookup_default 0 (grid_sums s) key"

subsection \<open>Sequences of cycles\<close>

text \<open>A cycle completes when it returns its result; it performs the daily reset when it
  reaches the reset check and the check holds.\<close>

definition completes :: "(string \<Rightarrow> string option) \<Rightarrow> cycle_input \<Rightarrow> engine \<Rightarrow> bool" where
  "completes sensors inp s =
     (case snd (cycle sensors inp s) of Inr out \<Rightarrow> True | Inl e \<Rightarrow> False)"




subsection \<open>Predicates on inputs and states\<close>

text \<open>The storage reading of the battery, when there is one, is not negative.\<close>

definition battery_reading_ok :: "(string \<Rightarrow> string option) \<Rightarrow> cycle_input \<Rightarrow> bool" where
  "battery_reading_ok sensors inp =
     (case sensors ''battery_energy'' of
        None \<Rightarrow> True
      | Some entity_id \<Rightarrow>
          (case get_value (hass_states inp) entity_id of
             None \<Rightarrow> True
           | Some v \<Rightarrow> 0 \<le> num v))"

text \<open>No entry of the dict outside the keys \<open>X\<close> is negative.\<close>

definition nonneg_except :: "string set \<Rightarrow> dict \<Rightarrow> bool" where
  "nonneg_except X d \<longleftrightarrow> (\<forall>k v. k \<notin> X \<longrightarrow> Mapping.lookup d k = Some v \<longrightarrow> 0 \<le> v)"

definition inv :: "string set \<Rightarrow> engine \<Rightarrow> bool" where
  "inv X s \<longleftrightarrow>
     nonneg_except X (energy_sums s) \<and> nonneg_except {} (pv_sums s)
     \<and> nonneg_except {} (grid_sums s)
     \<and> (\<forall>stored. store s = Some stored \<longrightarrow>
          nonneg_except X (snap_energy_sums stored) \<and> nonneg_except {} (snap_pv_sums stored)
          \<and> nonneg_except {} (snap_grid_sums stored))"

text \<open>What the mix updates of a cycle may change: the mix sums and the calculated keys.\<close>

definition mix_step :: "engine \<Rightarrow> engine \<Rightarrow> bool" where
  "mix_step s s' \<longleftrightarrow>
     energy_sums s' = energy_sums s \<and> energy_baselines s' = energy_baselines s
     \<and> last_reset s' = last_reset s \<and> car_connected_was s' = car_connected_was s
     \<and> last_update s' = last_update s \<and> store s' = store s
     \<and> (nonneg_except {} (pv_sums s) \<longrightarrow> nonneg_except {} (pv_sums s'))
     \<and> (nonneg_except {} (grid_sums s) \<longrightarrow> nonneg_except {} (grid_sums s'))"

subsection \<open>Example configurations, readings and engines\<close>

definition watts :: "real \<Rightarrow> entity" where
  "watts v = \<lparr>st_state = Numeric v, unit_of_measurement = Some ''W''\<rparr>"

definition watt_hours :: "real \<Rightarrow> entity" where
  "watt_hours v = \<lparr>st_state = Numeric v, unit_of_measurement = Some ''Wh''\<rparr>"

definition text_state :: "string \<Rightarrow> entity" where
  "text_state t = \<lparr>st_state = Text t, unit_of_measurement = None\<rparr>"

text \<open>Grid and battery power: a battery discharging at 500 W, and an idle battery with no
  exchange with the grid.\<close>

definition sensors_battery :: "string \<Rightarrow> string option" where
  "sensors_battery =
     [''grid_power'' \<mapsto> ''sensor.grid_power'', ''battery_power'' \<mapsto> ''sensor.battery_power'']"

definition states_discharging :: "string \<Rightarrow> entity option" where
  "states_discharging =
     [''sensor.grid_power'' \<mapsto> watts 0, ''sensor.battery_power'' \<mapsto> watts 500]"

definition raw_discharging :: dict where
  "raw_discharging =
     Mapping.update ''battery_power'' 500 (Mapping.update ''grid_power'' 0 Mapping.empty)"

definition input_discharging :: cycle_input where
  "input_discharging =
     \<lparr>now_init = 3600, now = 3600, reset_time_utc = 86400,
      hass_states = states_discharging, save_ok = True\<rparr>"

definition engine_battery :: engine where
  "engine_battery =
     (init_engine 0)
       \<lparr>energy_sums := Mapping.update ''home_energy_daily'' 0 Mapping.empty,
        pv_sums := Mapping.update ''battery_energy'' 800 Mapping.empty,
        grid_sums := Mapping.update ''battery_energy'' 200 Mapping.empty\<rparr>"

definition states_idle :: "string \<Rightarrow> entity option" where
  "states_idle =
     [''sensor.grid_power'' \<mapsto> watts 0, ''sensor.battery_power'' \<mapsto> watts 0]"

definition raw_idle :: dict where
  "raw_idle =
     Mapping.update ''battery_power'' 0 (Mapping.update ''grid_power'' 0 Mapping.empty)"

definition input_idle :: cycle_input where
  "input_idle =
     \<lparr>now_init = 3600, now = 3600, reset_time_utc = 86400,
      hass_states = states_idle, save_ok = True\<rparr>"

text \<open>A car that has just been plugged in, with a cumulative charging-energy sensor.\<close>

definition sensors_car :: "string \<Rightarrow> string option" where
  "sensors_car =
     [''grid_power'' \<mapsto> ''sensor.grid_power'',
      ''car_charging_energy'' \<mapsto> ''sensor.car_charging_energy'',
      ''car_connected'' \<mapsto> ''binary_sensor.car_connected'']"

definition states_plugged :: "string \<Rightarrow> entity option" where
  "states_plugged =
     [''sensor.grid_power'' \<mapsto> watts 100,
      ''sensor.car_charging_energy'' \<mapsto> watt_hours 5750,
      ''binary_sensor.car_connected'' \<mapsto> text_state ''on'']"

definition raw_plugged :: dict where
  "raw_plugged =
     Mapping.update ''car_connected'' 1
       (Mapping.update ''car_charging_energy'' 5750
          (Mapping.update ''grid_power'' 100 Mapping.empty))"

definition input_plugged :: cycle_input where
  "input_plugged =
     \<lparr>now_init = 3600, now = 3600, reset_time_utc = 86400,
      hass_states = states_plugged, save_ok = True\<rparr>"

definition engine_unplugged :: engine where
  "engine_unplugged =
     (init_engine 0)
       \<lparr>energy_sums := Mapping.update ''car_charging_energy'' 700 Mapping.empty,
        energy_baselines := Mapping.update ''car_charging_energy'' 5000 Mapping.empty\<rparr>"

text \<open>Grid power only, around the reset instant 86400: an hour before it, after it, and
  after it with the sensor unavailable; and a grid power of 0 W.\<close>

definition sensors_grid :: "string \<Rightarrow> string option" where
  "sensors_grid = [''grid_power'' \<mapsto> ''sensor.grid_power'']"

definition states_grid :: "string \<Rightarrow> entity option" where
  "states_grid = [''sensor.grid_power'' \<mapsto> watts 100]"

definition states_unready :: "string \<Rightarrow> entity option" where
  "states_unready = [''sensor.grid_power'' \<mapsto> text_state ''unavailable'']"

definition states_zero :: "string \<Rightarrow> entity option" where
  "states_zero = [''sensor.grid_power'' \<mapsto> watts 0]"



definition input_after :: cycle_input where
  "input_after =
     \<lparr>now_init = 90000, now = 90000, reset_time_utc = 86400,
      hass_states = states_grid, save_ok = True\<rparr>"

definition input_unready :: cycle_input where
  "input_unready =
     \<lparr>now_init = 90000, now = 90000, reset_time_utc = 86400,
      hass_states = states_unready, save_ok = True\<rparr>"

definition raw_zero :: dict where
  "raw_zero = Mapping.update ''grid_power'' 0 Mapping.empty"

definition input_zero :: cycle_input where
  "input_zero =
     \<lparr>now_init = 3600, now = 3600, reset_time_utc = 86400,
      hass_states = states_zero, save_ok = True\<rparr>"

text \<open>A grid power of 1000 W, and an engine whose total of
  \<^verbatim>\<open>grid_in_energy_daily\<close> is 0.0004 Wh.\<close>

definition states_kilowatt :: "string \<Rightarrow> entity option" where
  "states_kilowatt = [''sensor.grid_power'' \<mapsto> watts 1000]"

definition raw_kilowatt :: dict where
  "raw_kilowatt = Mapping.update ''grid_power'' 1000 Mapping.empty"

definition input_kilowatt :: cycle_input where
  "input_kilowatt =
     \<lparr>now_init = 3600, now = 3600, reset_time_utc = 86400,
      hass_states = states_kilowatt, save_ok = True\<rparr>"

definition engine_fraction :: engine where
  "engine_fraction =
     (init_engine 0)
       \<lparr>energy_sums := Mapping.update ''grid_in_energy_daily'' (1 / 2500) Mapping.empty\<rparr>"

definition engine_day :: engine where
  "engine_day =
     (init_engine 0)
       \<lparr>energy_sums :=
          Mapping.update ''car_charging_energy'' 300
            (Mapping.update ''grid_in_energy_daily'' 750 Mapping.empty),
        energy_baselines :=
          Mapping.update ''car_charging_energy'' 4000
            (Mapping.update ''grid_in_energy_daily'' 5000 Mapping.empty),
        pv_sums :=
          Mapping.update ''home_energy_daily'' 50
            (Mapping.update ''battery_energy'' 800 Mapping.empty),
        grid_sums :=
          Mapping.update ''home_energy_daily'' 70
            (Mapping.update ''battery_energy'' 200 Mapping.empty)\<rparr>"

text \<open>Grid power and a battery storage sensor, which reports 2000 Wh or -1 Wh.\<close>

definition sensors_storage :: "string \<Rightarrow> string option" where
  "sensors_storage =
     [''grid_power'' \<mapsto> ''sensor.grid_power'', ''battery_energy'' \<mapsto> ''sensor.battery_energy'']"

definition states_storage :: "string \<Rightarrow> entity option" where
  "states_storage =
     [''sensor.grid_power'' \<mapsto> watts 100, ''sensor.battery_energy'' \<mapsto> watt_hours 2000]"

definition raw_storage :: dict where
  "raw_storage =
     Mapping.update ''battery_energy'' 2000 (Mapping.update ''grid_power'' 100 Mapping.empty)"

definition input_storage :: cycle_input where
  "input_storage =
     \<lparr>now_init = 3600, now = 3600, reset_time_utc = 86400,
      hass_states = states_storage, save_ok = True\<rparr>"

definition states_negative :: "string \<Rightarrow> entity option" where
  "states_negative =
     [''sensor.grid_power'' \<mapsto> watts 100, ''sensor.battery_energy'' \<mapsto> watt_hours (- 1)]"

definition raw_negative :: dict where
  "raw_negative =
     Mapping.update ''battery_energy'' (- 1) (Mapping.update ''grid_power'' 100 Mapping.empty)"

definition input_negative :: cycle_input where
  "input_negative =
     \<lparr>now_init = 3600, now = 3600, reset_time_utc = 86400,
      hass_states = states_negative, save_ok = True\<rparr>"

section \<open>Properties\<close>

subsection \<open>Rounding\<close>

lemma py_round_whole: "py_round (of_int n / 1000) 3 = of_int n / 1000"
  by (simp add: py_round_def)

lemma py_round_nonneg: "0 \<le> x \<Longrightarrow> 0 \<le> py_round x n"
  by (simp add: py_round_def Let_def)

text \<open>The result is a whole multiple of \<open>1 / 10 ^ n\<close>, and a nearest one.\<close>

lemma py_round_multiple: "\<exists>k::int. py_round x n = of_int k / 10 ^ n"
  unfolding py_round_def Let_def by blast

lemma py_round_near: "\<bar>py_round x n - x\<bar> \<le> 1 / (2 * 10 ^ n)"
proof -
  define m where "m = x * 10 ^ n"
  define f where "f = \<lfloor>m\<rfloor>"
  define r where "r = (if m - of_int f < 1 / 2 then f
                       else if 1 / 2 < m - of_int f then f + 1
                       else if even f then f else f + 1)"
  have pr: "py_round x n = of_int r / 10 ^ n"
    by (simp add: py_round_def Let_def m_def f_def r_def)
  have "of_int f \<le> m" and "m < of_int f + 1"
    unfolding f_def by linarith+
  then have near: "\<bar>of_int r - m\<bar> \<le> 1 / 2"
    by (auto simp: r_def)
  have "py_round x n - x = (of_int r - m) / 10 ^ n"
    by (simp add: pr m_def diff_divide_distrib)
  then have "\<bar>py_round x n - x\<bar> = \<bar>of_int r - m\<bar> / 10 ^ n"
    by simp
  also have "\<dots> \<le> (1 / 2) / 10 ^ n"
    using near by (intro divide_right_mono) simp_all
  finally show ?thesis by simp
qed

subsection \<open>Dicts without negative entries\<close>

lemma nonneg_except_empty: "nonneg_except X Mapping.empty"
  by (simp add: nonneg_except_def)

lemma nonneg_except_update:
  "k \<in> X \<or> 0 \<le> v \<Longrightarrow> nonneg_except X d \<Longrightarrow> nonneg_except X (Mapping.update k v d)"
  by (auto simp: nonneg_except_def Mapping.lookup_update' split: if_splits)

lemma nonneg_except_lookup_default:
  "nonneg_except X d \<Longrightarrow> k \<notin> X \<Longrightarrow> 0 \<le> Mapping.lookup_default 0 d k"
  by (simp add: nonneg_except_def Mapping.lookup_default_def split: option.splits)

subsection \<open>What the integrator and the apportioner leave alone\<close>

lemma update_energy_frame:
  "pv_sums (update_energy key e p h s) = pv_sums s"
  "grid_sums (update_energy key e p h s) = grid_sums s"
  "last_reset (update_energy key e p h s) = last_reset s"
  "car_connected_was (update_energy key e p h s) = car_connected_was s"
  "last_update (update_energy key e p h s) = last_update s"
  "store (update_energy key e p h s) = store s"
  by (simp_all add: update_energy_def Let_def split: option.splits)


lemma update_energy_nonneg:
  assumes "nonneg_except X (energy_sums s)"
  shows "nonneg_except X (energy_sums (update_energy key e p h s))"
proof (cases e)
  case (Some ev)
  then show ?thesis
    using assms by (simp add: update_energy_def Let_def nonneg_except_update split: option.splits)
next
  case None
  show ?thesis
  proof (cases "key \<in> X")
    case True
    with None assms show ?thesis
      by (simp add: update_energy_def Let_def nonneg_except_update split: option.splits)
  next
    case False
    from nonneg_except_lookup_default [OF assms False]
    have "0 < h \<Longrightarrow> 0 < pw \<Longrightarrow>
        0 \<le> py_round (Mapping.lookup_default 0 (energy_sums s) key + pw * h) 3" for pw
      by (intro py_round_nonneg) simp
    with None assms show ?thesis
      by (simp add: update_energy_def Let_def nonneg_except_update split: option.splits)
  qed
qed

lemma add_mix_energy_frame:
  "energy_sums (add_mix_energy key pv g b f h u s) = energy_sums s"
  "energy_baselines (add_mix_energy key pv g b f h u s) = energy_baselines s"
  "last_reset (add_mix_energy key pv g b f h u s) = last_reset s"
  "car_connected_was (add_mix_energy key pv g b f h u s) = car_connected_was s"
  "last_update (add_mix_energy key pv g b f h u s) = last_update s"
  "store (add_mix_energy key pv g b f h u s) = store s"
  by (simp_all add: add_mix_energy_def Let_def split: option.splits prod.splits)

lemma add_mix_energy_nonneg:
  "nonneg_except {} (pv_sums s) \<Longrightarrow>
   nonneg_except {} (pv_sums (add_mix_energy key pv g b f h u s))"
  "nonneg_except {} (grid_sums s) \<Longrightarrow>
   nonneg_except {} (grid_sums (add_mix_energy key pv g b f h u s))"
  by (simp_all add: add_mix_energy_def Let_def nonneg_except_update
      split: option.splits prod.splits)

lemma mix_step_refl: "mix_step s s"
  by (simp add: mix_step_def)

lemma mix_step_trans: "mix_step s s' \<Longrightarrow> mix_step s' s'' \<Longrightarrow> mix_step s s''"
  by (simp add: mix_step_def)

lemma mix_step_add: "mix_step s (add_mix_energy key pv g b f h u s)"
  by (simp add: mix_step_def add_mix_energy_frame add_mix_energy_nonneg)

lemma mix_step_keys: "mix_step s s' \<Longrightarrow> mix_step s (s'\<lparr>calculated_keys := ks\<rparr>)"
  by (simp add: mix_step_def)

lemma battery_mix_step:
  "battery_mix raw h (s, r) = Inr (s', r') \<Longrightarrow> mix_step s s'"
  by (auto simp: battery_mix_def Let_def mix_step_refl mix_step_add mix_step_keys
      split: option.splits if_splits sum.splits)

lemma home_mix_step:
  "home_mix h (s, r) = Inr (s', r') \<Longrightarrow> mix_step s s'"
  by (auto simp: home_mix_def Let_def mix_step_add mix_step_keys split: sum.splits)

lemma car_mix_step:
  "car_mix raw h (s, r) = Inr (s', r') \<Longrightarrow> mix_step s s'"
  by (auto simp: car_mix_def Let_def mix_step_refl mix_step_add mix_step_keys
      split: option.splits sum.splits)

lemma account_mix_step:
  "account raw h s = (s', out) \<Longrightarrow> mix_step (energies raw (momentary raw) h s) s'"
  by (auto simp: account_def Let_def mix_step_refl split: sum.splits prod.splits
      dest!: battery_mix_step home_mix_step car_mix_step intro: mix_step_trans)

lemma energies_frame:
  "pv_sums (energies raw r h s) = pv_sums s"
  "grid_sums (energies raw r h s) = grid_sums s"
  "last_reset (energies raw r h s) = last_reset s"
  "car_connected_was (energies raw r h s) = car_connected_was s"
  "last_update (energies raw r h s) = last_update s"
  "store (energies raw r h s) = store s"
  by (simp_all add: energies_def Let_def update_energy_frame split: option.splits)


lemma energies_nonneg:
  "nonneg_except X (energy_sums s) \<Longrightarrow>
   ''battery_energy'' \<in> X \<or> (\<forall>v. Mapping.lookup raw ''battery_energy'' = Some v \<longrightarrow> 0 \<le> v) \<Longrightarrow>
   nonneg_except X (energy_sums (energies raw r h s))"
  by (auto simp: energies_def Let_def split: option.splits
      intro!: update_energy_nonneg nonneg_except_update)







subsection \<open>Acquisition\<close>

lemma read_raw_vals_unready:
  "key \<in> set keys \<Longrightarrow> sensors key = Some entity_id \<Longrightarrow> get_value sts entity_id = None \<Longrightarrow>
   \<exists>msg. read_raw_vals sensors sts keys raw = Inl (UpdateFailed msg)"
proof (induction keys arbitrary: raw)
  case Nil
  then show ?case by simp
next
  case (Cons k ks)
  show ?case
  proof (cases "sensors k")
    case None
    with Cons show ?thesis by auto
  next
    case (Some e)
    show ?thesis
    proof (cases "get_value sts e")
      case None
      with Some show ?thesis by simp
    next
      case (Some v)
      with \<open>sensors k = Some e\<close> Cons show ?thesis by auto
    qed
  qed
qed

lemma read_raw_vals_source:
  "read_raw_vals sensors sts keys raw = Inr raw' \<Longrightarrow> Mapping.lookup raw' k = Some x \<Longrightarrow>
   Mapping.lookup raw k = Some x
   \<or> (\<exists>entity_id v. sensors k = Some entity_id \<and> get_value sts entity_id = Some v \<and> x = num v)"
proof (induction keys arbitrary: raw)
  case Nil
  then show ?case by simp
next
  case (Cons key keys)
  show ?case
  proof (cases "sensors key")
    case None
    with Cons show ?thesis by simp
  next
    case (Some e)
    show ?thesis
    proof (cases "get_value sts e")
      case None
      with Some Cons.prems show ?thesis by simp
    next
      case v: (Some v)
      with Some Cons.prems
      have "read_raw_vals sensors sts keys (Mapping.update key (num v) raw) = Inr raw'"
        by simp
      from Cons.IH [OF this Cons.prems(2)] Some v show ?thesis
        by (auto simp: Mapping.lookup_update' split: if_splits)
    qed
  qed
qed

lemma acquire_state:
  "fst (acquire sensors inp s)
     = (initialize (now_init inp) s)\<lparr>last_update := Some (now inp), calculated_keys := []\<rparr>"
  by (simp add: acquire_def Let_def split: sum.splits)

lemma initialize_holding:
  "\<not> Mapping.is_empty (energy_sums s) \<Longrightarrow> initialize t s = s"
  by (simp add: initialize_def)

lemma acquire_battery_ok:
  assumes "acquire sensors inp s = (s1, Inr (raw, h))" and "battery_reading_ok sensors inp"
    and "Mapping.lookup raw ''battery_energy'' = Some v"
  shows "0 \<le> v"
proof -
  from assms(1)
  have "read_raw_vals sensors (hass_states inp) SENSOR_KEYS Mapping.empty = Inr raw"
    by (auto simp: acquire_def Let_def split: sum.splits)
  from read_raw_vals_source [OF this assms(3)] assms(2) show ?thesis
    by (auto simp: battery_reading_ok_def)
qed

lemma cycle_unready:
  assumes "key \<in> set SENSOR_KEYS" and "sensors key = Some entity_id"
    and "get_value (hass_states inp) entity_id = None"
  shows "\<exists>msg. cycle sensors inp s
      = ((initialize (now_init inp) s)\<lparr>last_update := Some (now inp), calculated_keys := []\<rparr>,
         Inl (UpdateFailed msg))"
proof -
  from assms read_raw_vals_unready
    [of key SENSOR_KEYS sensors entity_id "hass_states inp" Mapping.empty]
  obtain msg where "read_raw_vals sensors (hass_states inp) SENSOR_KEYS Mapping.empty
      = Inl (UpdateFailed msg)"
    by blast
  then show ?thesis
    by (simp add: cycle_def acquire_def Let_def)
qed

text \<open>A cycle whose raw values are known, unfolded up to the accounting stage.\<close>

lemma cycle_eval:
  "read_raw_vals sensors (hass_states inp) SENSOR_KEYS Mapping.empty = Inr raw \<Longrightarrow>
   cycle sensors inp s =
     (case account raw (elapsed_hours (now inp) (initialize (now_init inp) s))
             ((initialize (now_init inp) s)
                \<lparr>last_update := Some (now inp), calculated_keys := []\<rparr>) of
        (s2, Inl e) \<Rightarrow> (s2, Inl e)
      | (s2, Inr r) \<Rightarrow>
          (persist (save_ok inp) (car_reset r (daily_check inp s2)),
           Inr \<lparr>out_result = r,
                 out_calculated_keys =
                   calculated_keys (persist (save_ok inp) (car_reset r (daily_check inp s2)))\<rparr>))"
  by (simp add: cycle_def acquire_def Let_def)

lemmas stage_defs =
  account_def momentary_def copy_key_def energies_def publish_sums_def battery_mix_def
  home_mix_def car_mix_def update_energy_def add_mix_energy_def mix_ratio_def
  initialize_def elapsed_hours_def daily_check_def daily_reset_due_def daily_reset_def
  car_reset_def persist_def snapshot_of_def py_div_def py_int_def py_round_def
  init_engine_def total_def baseline_def pv_sum_def grid_sum_def
  Mapping.lookup_default_def Mapping.lookup_update' Mapping.lookup_combine Let_def

lemmas reading_defs =
  SENSOR_KEYS_def get_value_def num_def lower_def lower_char_def
  watts_def watt_hours_def text_state_def

subsection \<open>One cycle and the daily reset\<close>


lemma unready_not_completes:
  assumes "key \<in> set SENSOR_KEYS" and "sensors key = Some entity_id"
    and "get_value (hass_states inp) entity_id = None"
  shows "\<not> completes sensors inp s"
  using cycle_unready [of key sensors entity_id inp s] assms
  by (auto simp: completes_def)

subsection \<open>Sequences of cycles and the daily reset\<close>




subsection \<open>Non-negative totals and sums\<close>

lemma inv_init: "inv X (init_engine t)"
  by (simp add: inv_def init_engine_def nonneg_except_empty)

lemma inv_initialize: "inv X s \<Longrightarrow> inv X (initialize t s)"
  by (auto simp: inv_def initialize_def nonneg_except_empty split: option.splits)

lemma inv_acquire: "inv X s \<Longrightarrow> inv X (fst (acquire sensors inp s))"
  using inv_initialize [of X s "now_init inp"] by (simp add: acquire_state inv_def)

lemma inv_account:
  assumes "account raw h s = (s', out)" and "inv X s"
    and "''battery_energy'' \<in> X
      \<or> (\<forall>v. Mapping.lookup raw ''battery_energy'' = Some v \<longrightarrow> 0 \<le> v)"
  shows "inv X s'"
proof -
  let ?e = "energies raw (momentary raw) h s"
  have "inv X ?e"
    using assms(2,3) by (simp add: inv_def energies_frame energies_nonneg)
  with account_mix_step [OF assms(1)] show ?thesis
    by (simp add: inv_def mix_step_def)
qed

lemma inv_daily_check: "inv X s \<Longrightarrow> inv X (daily_check inp s)"
proof -
  assume i: "inv X s"
  have "''car_charging_energy'' \<in> X
      \<or> 0 \<le> Mapping.lookup_default 0 (energy_sums s) ''car_charging_energy''"
    using i by (auto simp: inv_def intro: nonneg_except_lookup_default)
  moreover have "0 \<le> Mapping.lookup_default 0 (pv_sums s) ''battery_energy''"
    and "0 \<le> Mapping.lookup_default 0 (grid_sums s) ''battery_energy''"
    using i by (auto simp: inv_def intro: nonneg_except_lookup_default)
  ultimately show ?thesis
    using i
    by (simp add: inv_def daily_check_def daily_reset_def nonneg_except_update
        nonneg_except_empty)
qed

lemma inv_car_reset: "inv X s \<Longrightarrow> inv X (car_reset r s)"
  by (simp add: inv_def car_reset_def Let_def nonneg_except_update)

lemma inv_persist: "inv X s \<Longrightarrow> inv X (persist ok s)"
  by (simp add: inv_def persist_def snapshot_of_def)

lemma inv_cycle:
  assumes "inv X s" and "''battery_energy'' \<in> X \<or> battery_reading_ok sensors inp"
  shows "inv X (fst (cycle sensors inp s))"
proof -
  obtain s1 a where acq: "acquire sensors inp s = (s1, a)"
    by (cases "acquire sensors inp s")
  with inv_acquire [OF assms(1), of sensors inp] have i1: "inv X s1"
    by simp
  show ?thesis
  proof (cases a)
    case (Inl e)
    with acq i1 show ?thesis by (simp add: cycle_def)
  next
    case (Inr rh)
    obtain raw h where rh: "rh = (raw, h)" by (cases rh)
    obtain s2 out where acc: "account raw h s1 = (s2, out)"
      by (cases "account raw h s1")
    have "''battery_energy'' \<in> X
        \<or> (\<forall>v. Mapping.lookup raw ''battery_energy'' = Some v \<longrightarrow> 0 \<le> v)"
      using acquire_battery_ok [of sensors inp s s1 raw h] acq Inr rh assms(2) by blast
    from inv_account [OF acc i1 this] have i2: "inv X s2" .
    show ?thesis
    proof (cases out)
      case (Inl e)
      with acq Inr rh acc i2 show ?thesis by (simp add: cycle_def)
    next
      case res: (Inr r)
      with acq Inr rh acc i2 show ?thesis
        by (simp add: cycle_def Let_def inv_persist inv_car_reset inv_daily_check)
    qed
  qed
qed

lemma inv_run:
  "inv X s \<Longrightarrow> ''battery_energy'' \<in> X \<or> (\<forall>inp \<in> set inps. battery_reading_ok sensors inp) \<Longrightarrow>
   inv X (run sensors inps s)"
proof (induction inps arbitrary: s)
  case Nil
  then show ?case by simp
next
  case (Cons inp inps)
  from Cons.prems have "inv X (fst (cycle sensors inp s))"
    by (intro inv_cycle) auto
  with Cons show ?case by auto
qed

subsection \<open>Evaluating the example cycles\<close>

lemma cycle_abort_eval:
  "read_raw_vals sensors (hass_states inp) SENSOR_KEYS Mapping.empty = Inl e \<Longrightarrow>
   cycle sensors inp s =
     ((initialize (now_init inp) s)\<lparr>last_update := Some (now inp), calculated_keys := []\<rparr>,
      Inl e)"
  by (simp add: cycle_def acquire_def Let_def)


lemma read_discharging:
  "read_raw_vals sensors_battery (hass_states input_discharging) SENSOR_KEYS Mapping.empty
     = Inr raw_discharging"
  by (simp add: reading_defs sensors_battery_def input_discharging_def states_discharging_def
      raw_discharging_def)

lemma read_idle:
  "read_raw_vals sensors_battery (hass_states input_idle) SENSOR_KEYS Mapping.empty
     = Inr raw_idle"
  by (simp add: reading_defs sensors_battery_def input_idle_def states_idle_def raw_idle_def)

lemma read_plugged:
  "read_raw_vals sensors_car (hass_states input_plugged) SENSOR_KEYS Mapping.empty
     = Inr raw_plugged"
  by (simp add: reading_defs sensors_car_def input_plugged_def states_plugged_def
      raw_plugged_def)



lemma read_unready:
  "read_raw_vals sensors_grid (hass_states input_unready) SENSOR_KEYS Mapping.empty
     = Inl (UpdateFailed ''Entity sensor.grid_power is not ready!'')"
  by (simp add: reading_defs sensors_grid_def input_unready_def states_unready_def)

lemma read_zero:
  "read_raw_vals sensors_grid (hass_states input_zero) SENSOR_KEYS Mapping.empty
     = Inr raw_zero"
  by (simp add: reading_defs sensors_grid_def input_zero_def states_zero_def raw_zero_def)

lemma read_kilowatt:
  "read_raw_vals sensors_grid (hass_states input_kilowatt) SENSOR_KEYS Mapping.empty
     = Inr raw_kilowatt"
  by (simp add: reading_defs sensors_grid_def input_kilowatt_def states_kilowatt_def
      raw_kilowatt_def)

lemma read_storage:
  "read_raw_vals sensors_storage (hass_states input_storage) SENSOR_KEYS Mapping.empty
     = Inr raw_storage"
  by (simp add: reading_defs sensors_storage_def input_storage_def states_storage_def
      raw_storage_def)

lemma read_negative:
  "read_raw_vals sensors_storage (hass_states input_negative) SENSOR_KEYS Mapping.empty
     = Inr raw_negative"
  by (simp add: reading_defs sensors_storage_def input_negative_def states_negative_def
      raw_negative_def)

subsection \<open>The apportioner and a discharging battery\<close>

text \<open>
  C1 (as amended). When the apportioner is called with a positive battery power \<open>bp\<close> and a
  battery mix fraction \<open>f\<close>, as the cycle does for the home and the car account, the
  discharged power is redistributed into the contributions of that account: the pv
  contribution is \<open>pv + f * bp\<close> and the grid contribution \<open>g + (1 - f) * bp\<close>, each floored
  at 0, times the elapsed hours, times the usage fraction if there is one, and each sum is
  floored at 0. With 500 W, the fraction 0.8, one hour, no other power and no usage
  fraction, an account whose sums lie between 0 and \<open>10 ^ 6\<close> Wh gets 400 Wh more in its pv
  sum and 100 Wh more in its grid sum, to within \<open>1 / 10 ^ 9\<close> Wh. The increases are exactly 400
  and 100 in the exact arithmetic of the embedding; the margin covers the rounding of
  binary64, in which \<^verbatim>\<open>(1 - 0.8) * 500\<close> is 99.99999999999997.
\<close>

theorem add_mix_energy_discharge:
  "(0 < bp \<longrightarrow>
      pv_sum (add_mix_energy key (Some pv) (Some g) (Some bp) (Some f) h u s) key
        = max 0 (pv_sum s key
                 + max 0 (pv + f * bp) * h * (case u of None \<Rightarrow> 1 | Some x \<Rightarrow> x))
      \<and> grid_sum (add_mix_energy key (Some pv) (Some g) (Some bp) (Some f) h u s) key
        = max 0 (grid_sum s key
                 + max 0 (g + (1 - f) * bp) * h * (case u of None \<Rightarrow> 1 | Some x \<Rightarrow> x)))
   \<and> (0 \<le> pv_sum s key \<and> pv_sum s key \<le> 10 ^ 6
      \<and> 0 \<le> grid_sum s key \<and> grid_sum s key \<le> 10 ^ 6 \<longrightarrow>
      \<bar>pv_sum (add_mix_energy key (Some 0) (Some 0) (Some 500) (Some (4 / 5)) 1 None s) key
         - (pv_sum s key + 400)\<bar> \<le> 1 / 10 ^ 9
      \<and> \<bar>grid_sum (add_mix_energy key (Some 0) (Some 0) (Some 500) (Some (4 / 5)) 1 None s) key
         - (grid_sum s key + 100)\<bar> \<le> 1 / 10 ^ 9)"
  by (auto simp: add_mix_energy_def pv_sum_def grid_sum_def Mapping.lookup_default_def Let_def
      max_def split: option.splits)

theorem add_mix_energy_discharge_witness:
  "(0::real) < 500
   \<and> 0 \<le> pv_sum engine_battery ''home_energy_daily''
   \<and> pv_sum engine_battery ''home_energy_daily'' \<le> 10 ^ 6
   \<and> 0 \<le> grid_sum engine_battery ''home_energy_daily''
   \<and> grid_sum engine_battery ''home_energy_daily'' \<le> 10 ^ 6
   \<and> \<bar>pv_sum (add_mix_energy ''home_energy_daily'' (Some 0) (Some 0) (Some 500)
                 (Some (4 / 5)) 1 None engine_battery) ''home_energy_daily'' - 400\<bar>
       \<le> 1 / 10 ^ 9
   \<and> \<bar>grid_sum (add_mix_energy ''home_energy_daily'' (Some 0) (Some 0) (Some 500)
                 (Some (4 / 5)) 1 None engine_battery) ''home_energy_daily'' - 100\<bar>
       \<le> 1 / 10 ^ 9"
proof -
  have z: "pv_sum engine_battery ''home_energy_daily'' = 0"
    "grid_sum engine_battery ''home_energy_daily'' = 0"
    by (simp_all add: pv_sum_def grid_sum_def engine_battery_def init_engine_def
        Mapping.lookup_default_def)
  show ?thesis
    using add_mix_energy_discharge
      [of 500 "''home_energy_daily''" 0 0 "4 / 5" 1 None engine_battery] z
    by simp
qed

text \<open>
  The claim as stated fails: in a cycle with the battery discharging at 500 W, a battery mix
  fraction of 0.8 and one elapsed hour, the sums of the battery account stay 800 and 200:
  the battery account receives nothing of the discharged power.
\<close>

theorem battery_account_discharge_counterexample:
  "get_value (hass_states input_discharging) ''sensor.battery_power'' = Some (Float 500)
   \<and> mix_ratio engine_battery ''battery_energy'' = 4 / 5
   \<and> elapsed_hours (now input_discharging) engine_battery = 1
   \<and> pv_sum engine_battery ''battery_energy'' = 800
   \<and> grid_sum engine_battery ''battery_energy'' = 200
   \<and> pv_sum (fst (cycle sensors_battery input_discharging engine_battery))
        ''battery_energy'' = 800
   \<and> grid_sum (fst (cycle sensors_battery input_discharging engine_battery))
        ''battery_energy'' = 200"
proof -
  have "get_value (hass_states input_discharging) ''sensor.battery_power'' = Some (Float 500)"
    by (simp add: reading_defs input_discharging_def states_discharging_def)
  moreover have "mix_ratio engine_battery ''battery_energy'' = 4 / 5"
    "elapsed_hours (now input_discharging) engine_battery = 1"
    "pv_sum engine_battery ''battery_energy'' = 800"
    "grid_sum engine_battery ''battery_energy'' = 200"
    by (simp_all add: stage_defs engine_battery_def input_discharging_def)
  moreover have
    "pv_sum (fst (cycle sensors_battery input_discharging engine_battery))
        ''battery_energy'' = 800"
    "grid_sum (fst (cycle sensors_battery input_discharging engine_battery))
        ''battery_energy'' = 200"
    by (simp_all only: cycle_eval [OF read_discharging])
      (simp_all add: stage_defs raw_discharging_def engine_battery_def input_discharging_def
        cong: let_weak_cong prod.case_cong_weak)
  ultimately show ?thesis by simp
qed

subsection \<open>The session reset\<close>

text \<open>
  C2. On the rising edge of the car-connected flag the session reset sets the total of
  \<^verbatim>\<open>car_charging_energy\<close> to 0; the baseline it stores is the session total
  published in this cycle, not the cumulative sensor reading. With the flag false before the
  cycle, the plug reading \<^verbatim>\<open>on\<close>, a stored baseline of 5000 Wh and a cumulative
  reading of 5750 Wh, the total becomes 0 and the baseline 750, where the reading is 5750.
\<close>

theorem car_reset_baseline_is_session_total:
  "\<not> car_connected_was engine_unplugged
   \<and> baseline engine_unplugged ''car_charging_energy'' = Some 5000
   \<and> get_value (hass_states input_plugged) ''binary_sensor.car_connected'' = Some (Bool True)
   \<and> get_value (hass_states input_plugged) ''sensor.car_charging_energy''
       = Some (Float 5750)
   \<and> completes sensors_car input_plugged engine_unplugged
   \<and> car_connected_was (fst (cycle sensors_car input_plugged engine_unplugged))
   \<and> total (fst (cycle sensors_car input_plugged engine_unplugged))
        ''car_charging_energy'' = 0
   \<and> baseline (fst (cycle sensors_car input_plugged engine_unplugged))
        ''car_charging_energy'' = Some 750"
proof -
  have "\<not> car_connected_was engine_unplugged"
    "baseline engine_unplugged ''car_charging_energy'' = Some 5000"
    by (simp_all add: stage_defs engine_unplugged_def)
  moreover have
    "get_value (hass_states input_plugged) ''binary_sensor.car_connected'' = Some (Bool True)"
    "get_value (hass_states input_plugged) ''sensor.car_charging_energy'' = Some (Float 5750)"
    by (simp_all add: reading_defs input_plugged_def states_plugged_def)
  moreover have
    "completes sensors_car input_plugged engine_unplugged"
    "car_connected_was (fst (cycle sensors_car input_plugged engine_unplugged))"
    "total (fst (cycle sensors_car input_plugged engine_unplugged))
        ''car_charging_energy'' = 0"
    "baseline (fst (cycle sensors_car input_plugged engine_unplugged))
        ''car_charging_energy'' = Some 750"
    by (simp_all only: completes_def cycle_eval [OF read_plugged])
      (simp_all add: stage_defs raw_plugged_def engine_unplugged_def input_plugged_def
        cong: let_weak_cong prod.case_cong_weak)
  ultimately show ?thesis by simp
qed

subsection \<open>The daily reset in a sequence of cycles\<close>




subsection \<open>What the daily reset keeps and clears\<close>

text \<open>
  C4 (as amended). When the daily reset fires, the total of \<^verbatim>\<open>car_charging_energy\<close>
  keeps its value and so does its baseline when one is stored; the pv and grid sums of
  \<^verbatim>\<open>battery_energy\<close> keep their values; every other total and every other mix sum
  reads 0, and every other baseline is cleared: no baseline is stored, so the next cumulative
  reading of such an account is captured as its new baseline.
\<close>

theorem daily_reset_effect:
  assumes "daily_reset_due inp s"
  shows "total (daily_check inp s) ''car_charging_energy'' = total s ''car_charging_energy''
    \<and> (\<forall>b. baseline s ''car_charging_energy'' = Some b \<longrightarrow>
          baseline (daily_check inp s) ''car_charging_energy'' = Some b)
    \<and> pv_sum (daily_check inp s) ''battery_energy'' = pv_sum s ''battery_energy''
    \<and> grid_sum (daily_check inp s) ''battery_energy'' = grid_sum s ''battery_energy''
    \<and> (key \<noteq> ''car_charging_energy'' \<longrightarrow>
          total (daily_check inp s) key = 0 \<and> baseline (daily_check inp s) key = None)
    \<and> (key \<noteq> ''battery_energy'' \<longrightarrow>
          pv_sum (daily_check inp s) key = 0 \<and> grid_sum (daily_check inp s) key = 0)
    \<and> last_reset (daily_check inp s) = now inp"
  using assms
  by (simp add: daily_check_def daily_reset_def total_def baseline_def pv_sum_def grid_sum_def
      Mapping.lookup_default_def Mapping.lookup_update')

theorem daily_reset_effect_witness:
  "daily_reset_due input_after engine_day
   \<and> baseline engine_day ''car_charging_energy'' = Some 4000
   \<and> ''grid_in_energy_daily'' \<noteq> ''car_charging_energy''
   \<and> ''grid_in_energy_daily'' \<noteq> ''battery_energy''
   \<and> total (daily_check input_after engine_day) ''car_charging_energy'' = 300
   \<and> baseline (daily_check input_after engine_day) ''car_charging_energy'' = Some 4000
   \<and> pv_sum (daily_check input_after engine_day) ''battery_energy'' = 800
   \<and> grid_sum (daily_check input_after engine_day) ''battery_energy'' = 200
   \<and> total (daily_check input_after engine_day) ''grid_in_energy_daily'' = 0
   \<and> baseline (daily_check input_after engine_day) ''grid_in_energy_daily'' = None
   \<and> pv_sum (daily_check input_after engine_day) ''grid_in_energy_daily'' = 0
   \<and> grid_sum (daily_check input_after engine_day) ''grid_in_energy_daily'' = 0"
proof -
  have due: "daily_reset_due input_after engine_day"
    by (simp add: daily_reset_due_def input_after_def engine_day_def init_engine_def)
  have before: "baseline engine_day ''car_charging_energy'' = Some 4000"
    "total engine_day ''car_charging_energy'' = 300"
    "pv_sum engine_day ''battery_energy'' = 800"
    "grid_sum engine_day ''battery_energy'' = 200"
    by (simp_all add: baseline_def total_def pv_sum_def grid_sum_def engine_day_def
        init_engine_def Mapping.lookup_default_def)
  show ?thesis
    using daily_reset_effect [OF due, of "''grid_in_energy_daily''"] due before
    by simp
qed

text \<open>
  The claim as stated fails: after the reset the baseline of another account is not 0 but
  absent, and the difference shows in the next cycle. With a baseline of 5000 Wh before the
  reset, a reading of 5750 Wh after it gives the total 0 (the reading becomes the
  baseline), where a baseline equal to 0 would give 5750.
\<close>

theorem daily_reset_baseline_counterexample:
  "daily_reset_due input_after engine_day
   \<and> baseline engine_day ''grid_in_energy_daily'' = Some 5000
   \<and> baseline (daily_check input_after engine_day) ''grid_in_energy_daily'' \<noteq> Some 0
   \<and> baseline (daily_check input_after engine_day) ''grid_in_energy_daily'' = None
   \<and> total (update_energy ''grid_in_energy_daily'' (Some 5750) None 0
              (daily_check input_after engine_day)) ''grid_in_energy_daily'' = 0
   \<and> baseline (update_energy ''grid_in_energy_daily'' (Some 5750) None 0
              (daily_check input_after engine_day)) ''grid_in_energy_daily'' = Some 5750"
  by (simp add: stage_defs input_after_def engine_day_def
      cong: let_weak_cong prod.case_cong_weak)

subsection \<open>A cycle with an unready sensor\<close>

text \<open>
  C5 (as amended). When some metric has a sensor configured whose value is unavailable,
  unknown or unparseable, the cycle aborts with the retryable failure before it writes any
  total, baseline, mix sum, the last-reset instant, the last-connected flag or the store:
  for an engine that holds totals these are exactly as before the cycle. The last-update
  instant has already been advanced to the clock reading of the aborted cycle (and the list
  of calculated keys emptied).
\<close>

theorem cycle_unready_sensor:
  assumes "key \<in> set SENSOR_KEYS" and "sensors key = Some entity_id"
    and "get_value (hass_states inp) entity_id = None"
    and "\<not> Mapping.is_empty (energy_sums s)"
  shows "\<exists>msg. cycle sensors inp s
      = (s\<lparr>last_update := Some (now inp), calculated_keys := []\<rparr>, Inl (UpdateFailed msg))"
  using cycle_unready [of key sensors entity_id inp s] assms by (simp add: initialize_holding)

theorem cycle_unready_sensor_witness:
  "''grid_power'' \<in> set SENSOR_KEYS
   \<and> sensors_grid ''grid_power'' = Some ''sensor.grid_power''
   \<and> get_value (hass_states input_unready) ''sensor.grid_power'' = None
   \<and> \<not> Mapping.is_empty (energy_sums engine_day)
   \<and> (\<exists>msg. cycle sensors_grid input_unready engine_day
         = (engine_day\<lparr>last_update := Some (now input_unready), calculated_keys := []\<rparr>,
            Inl (UpdateFailed msg)))"
proof -
  have k: "''grid_power'' \<in> set SENSOR_KEYS"
    by (simp add: SENSOR_KEYS_def)
  have e: "sensors_grid ''grid_power'' = Some ''sensor.grid_power''"
    by (simp add: sensors_grid_def)
  have v: "get_value (hass_states input_unready) ''sensor.grid_power'' = None"
    by (simp add: reading_defs input_unready_def states_unready_def)
  have ne: "\<not> Mapping.is_empty (energy_sums engine_day)"
    by (simp add: engine_day_def init_engine_def)
  from cycle_unready_sensor
    [of "''grid_power''" sensors_grid "''sensor.grid_power''" input_unready engine_day]
    k e v ne
  show ?thesis
    by blast
qed

text \<open>
  The claim as stated fails: the aborted cycle does not leave the last-update instant as it
  was. Here it was 0 before the cycle and is 90000 after it.
\<close>

theorem cycle_unready_last_update_counterexample:
  "get_value (hass_states input_unready) ''sensor.grid_power'' = None
   \<and> snd (cycle sensors_grid input_unready engine_day)
       = Inl (UpdateFailed ''Entity sensor.grid_power is not ready!'')
   \<and> last_update engine_day = Some 0
   \<and> last_update (fst (cycle sensors_grid input_unready engine_day)) = Some 90000"
proof -
  have "get_value (hass_states input_unready) ''sensor.grid_power'' = None"
    by (simp add: reading_defs input_unready_def states_unready_def)
  moreover have "last_update engine_day = Some 0"
    by (simp add: engine_day_def init_engine_def)
  moreover have "snd (cycle sensors_grid input_unready engine_day)
       = Inl (UpdateFailed ''Entity sensor.grid_power is not ready!'')"
    "last_update (fst (cycle sensors_grid input_unready engine_day)) = Some 90000"
    by (simp_all only: cycle_abort_eval [OF read_unready])
      (simp_all add: input_unready_def)
  ultimately show ?thesis by simp
qed

subsection \<open>The integrator\<close>

text \<open>
  C6. An account updated with a cumulative energy reading \<open>e\<close>: when no baseline is stored,
  the baseline becomes \<open>e\<close> and the total is 0; when a baseline \<open>b\<close> is stored, it stays and
  the total is \<open>max 0 (e - b)\<close>. A reading of 5000 Wh at baseline capture followed by
  5750 Wh gives the total 750 Wh.
\<close>

theorem update_energy_cumulative:
  "(baseline s key = None \<longrightarrow>
      baseline (update_energy key (Some e) p h s) key = Some e
      \<and> total (update_energy key (Some e) p h s) key = 0)
   \<and> (\<forall>b. baseline s key = Some b \<longrightarrow>
      baseline (update_energy key (Some e) p h s) key = Some b
      \<and> total (update_energy key (Some e) p h s) key = max 0 (e - b))
   \<and> (baseline s key = None \<longrightarrow>
      total (update_energy key (Some 5750) p' h' (update_energy key (Some 5000) p h s)) key
        = 750)"
  by (simp add: update_energy_def baseline_def total_def Mapping.lookup_default_def Let_def)

theorem update_energy_cumulative_witness:
  "baseline (init_engine 0) ''grid_in_energy_daily'' = None
   \<and> baseline (update_energy ''grid_in_energy_daily'' (Some 5000) None 0 (init_engine 0))
        ''grid_in_energy_daily'' = Some 5000
   \<and> total (update_energy ''grid_in_energy_daily'' (Some 5000) None 0 (init_engine 0))
        ''grid_in_energy_daily'' = 0
   \<and> total (update_energy ''grid_in_energy_daily'' (Some 5750) None 1
              (update_energy ''grid_in_energy_daily'' (Some 5000) None 0 (init_engine 0)))
        ''grid_in_energy_daily'' = 750"
  using update_energy_cumulative
    [of "init_engine 0" "''grid_in_energy_daily''" 5000 None 0 None 1]
  by (simp add: baseline_def init_engine_def)

text \<open>
  C7 (as amended). An account updated without an energy reading: with a power reading
  \<open>p > 0\<close> and \<open>h > 0\<close> elapsed hours the new total is the previous total plus \<open>p * h\<close>,
  rounded to three decimals, that is a whole multiple of 0.001 Wh at most 0.0005 Wh away
  from that sum (for a sum exactly half-way between two multiples either neighbour meets
  this, and the statement leaves the choice open); with \<open>p \<le> 0\<close> nothing changes. With
  1000 W over one hour the total of \<^verbatim>\<open>grid_in_energy_daily\<close> grows by exactly 1000 Wh
  when the previous total is a whole number of Wh between 0 and \<open>10 ^ 12\<close>, an absent total
  counting as 0.
\<close>

theorem update_energy_power:
  "(0 < h \<and> 0 < p \<longrightarrow>
      (\<exists>k::int. total (update_energy key None (Some p) h s) key = of_int k / 1000)
      \<and> \<bar>total (update_energy key None (Some p) h s) key - (total s key + p * h)\<bar>
          \<le> 1 / 2000)
   \<and> (p \<le> 0 \<longrightarrow> update_energy key None (Some p) h s = s)
   \<and> ((\<exists>n::int. 0 \<le> n \<and> n \<le> 10 ^ 12 \<and> total s ''grid_in_energy_daily'' = of_int n) \<longrightarrow>
      total (update_energy ''grid_in_energy_daily'' None (Some 1000) 1 s)
          ''grid_in_energy_daily''
        = total s ''grid_in_energy_daily'' + 1000)"
proof (intro conjI impI)
  assume "0 < h \<and> 0 < p"
  then have t: "total (update_energy key None (Some p) h s) key
      = py_round (total s key + p * h) 3"
    by (simp add: update_energy_def total_def Mapping.lookup_default_def Let_def)
  from py_round_multiple [of "total s key + p * h" 3]
  show "\<exists>k::int. total (update_energy key None (Some p) h s) key = of_int k / 1000"
    by (simp add: t)
  from py_round_near [of "total s key + p * h" 3]
  show "\<bar>total (update_energy key None (Some p) h s) key - (total s key + p * h)\<bar>
      \<le> 1 / 2000"
    by (simp add: t)
next
  assume "p \<le> 0"
  then show "update_energy key None (Some p) h s = s"
    by (simp add: update_energy_def)
next
  assume "\<exists>n::int. 0 \<le> n \<and> n \<le> 10 ^ 12 \<and> total s ''grid_in_energy_daily'' = of_int n"
  then obtain n :: int where n: "total s ''grid_in_energy_daily'' = of_int n"
    by blast
  have "total s ''grid_in_energy_daily'' + 1000 * 1 = of_int ((n + 1000) * 1000) / 1000"
    by (simp add: n)
  then have "py_round (total s ''grid_in_energy_daily'' + 1000 * 1) 3
      = total s ''grid_in_energy_daily'' + 1000"
    by (simp only: py_round_whole)
  then show "total (update_energy ''grid_in_energy_daily'' None (Some 1000) 1 s)
      ''grid_in_energy_daily'' = total s ''grid_in_energy_daily'' + 1000"
    by (simp add: update_energy_def total_def Mapping.lookup_default_def Let_def)
qed

theorem update_energy_power_witness:
  "(0::real) < 1 \<and> (0::real) < 1000 \<and> (- 250::real) \<le> 0
   \<and> (0::int) \<le> 0 \<and> (0::int) \<le> 10 ^ 12
   \<and> total (init_engine 0) ''grid_in_energy_daily'' = of_int 0
   \<and> \<bar>total (update_energy ''grid_in_energy_daily'' None (Some 1000) 1 (init_engine 0))
          ''grid_in_energy_daily''
        - (total (init_engine 0) ''grid_in_energy_daily'' + 1000 * 1)\<bar> \<le> 1 / 2000
   \<and> total (update_energy ''grid_in_energy_daily'' None (Some 1000) 1 (init_engine 0))
        ''grid_in_energy_daily'' = 1000
   \<and> update_energy ''grid_in_energy_daily'' None (Some (- 250)) 1 (init_engine 0)
        = init_engine 0"
proof -
  have z: "total (init_engine 0) ''grid_in_energy_daily'' = of_int 0"
    by (simp add: total_def init_engine_def Mapping.lookup_default_def)
  then have ex: "\<exists>n::int. 0 \<le> n \<and> n \<le> 10 ^ 12
      \<and> total (init_engine 0) ''grid_in_energy_daily'' = of_int n"
    by (intro exI [of _ 0]) simp
  show ?thesis
    using update_energy_power [of 1 "- 250" "''grid_in_energy_daily''" "init_engine 0"]
      update_energy_power [of 1 1000 "''grid_in_energy_daily''" "init_engine 0"] z ex
    by simp
qed

text \<open>
  The claim as stated fails: with a previous total of 0.0004 Wh, 1000 W over one hour give
  the total 1000 Wh, an increase of 999.9996 Wh and not of 1000 Wh; so does a whole cycle
  with a grid power of 1000 W, one elapsed hour and no cumulative sensor configured.
\<close>

theorem update_energy_power_fraction_counterexample:
  "total engine_fraction ''grid_in_energy_daily'' = 1 / 2500
   \<and> total (update_energy ''grid_in_energy_daily'' None (Some 1000) 1 engine_fraction)
        ''grid_in_energy_daily'' = 1000
   \<and> total (update_energy ''grid_in_energy_daily'' None (Some 1000) 1 engine_fraction)
        ''grid_in_energy_daily'' \<noteq> total engine_fraction ''grid_in_energy_daily'' + 1000
   \<and> sensors_grid ''grid_in_energy'' = None
   \<and> get_value (hass_states input_kilowatt) ''sensor.grid_power'' = Some (Float 1000)
   \<and> elapsed_hours (now input_kilowatt) engine_fraction = 1
   \<and> total (fst (cycle sensors_grid input_kilowatt engine_fraction))
        ''grid_in_energy_daily'' = 1000"
proof -
  have "total engine_fraction ''grid_in_energy_daily'' = 1 / 2500"
    "total (update_energy ''grid_in_energy_daily'' None (Some 1000) 1 engine_fraction)
        ''grid_in_energy_daily'' = 1000"
    "elapsed_hours (now input_kilowatt) engine_fraction = 1"
    by (simp_all add: stage_defs engine_fraction_def input_kilowatt_def)
  moreover have "sensors_grid ''grid_in_energy'' = None"
    by (simp add: sensors_grid_def)
  moreover
  have "get_value (hass_states input_kilowatt) ''sensor.grid_power'' = Some (Float 1000)"
    by (simp add: reading_defs input_kilowatt_def states_kilowatt_def)
  moreover have "total (fst (cycle sensors_grid input_kilowatt engine_fraction))
        ''grid_in_energy_daily'' = 1000"
    by (simp only: cycle_eval [OF read_kilowatt])
      (simp add: stage_defs raw_kilowatt_def engine_fraction_def input_kilowatt_def
        cong: let_weak_cong prod.case_cong_weak)
  ultimately show ?thesis by simp
qed

subsection \<open>Totals and mix sums are not negative\<close>

text \<open>
  C8 (as amended). Provided every numeric reading is a finite number, as every reading
  \<open>Numeric v\<close> of the embedding is, and no result overflows: after any sequence of cycles
  from the zeroed initial state, completed or aborted, every mix sum is at least 0 and every
  total other than \<^verbatim>\<open>battery_energy\<close> is at least 0; the total
  \<^verbatim>\<open>battery_energy\<close> is the raw storage reading, stored as it is, and is at least 0
  when every storage reading of the sequence is. (A state string \<^verbatim>\<open>nan\<close>, which
  \<^verbatim>\<open>float()\<close> accepts, is outside the proviso: it makes the home power and the usage
  fraction NaN, the comparison \<^verbatim>\<open>< 0.0\<close> of the clamp is false for NaN, and the mix
  sums of the home account become NaN.)
\<close>

theorem totals_and_sums_nonneg:
  "0 \<le> pv_sum (run sensors inps (init_engine t)) key
   \<and> 0 \<le> grid_sum (run sensors inps (init_engine t)) key
   \<and> (key \<noteq> ''battery_energy'' \<or> (\<forall>inp \<in> set inps. battery_reading_ok sensors inp) \<longrightarrow>
        0 \<le> total (run sensors inps (init_engine t)) key)"
proof -
  let ?r = "run sensors inps (init_engine t)"
  have i: "inv {''battery_energy''} ?r"
    by (intro inv_run inv_init) simp
  then have "nonneg_except {} (pv_sums ?r)" and "nonneg_except {} (grid_sums ?r)"
    and e: "nonneg_except {''battery_energy''} (energy_sums ?r)"
    by (simp_all add: inv_def)
  then have sums: "0 \<le> pv_sum ?r key" "0 \<le> grid_sum ?r key"
    by (simp_all add: pv_sum_def grid_sum_def nonneg_except_lookup_default [where X = "{}"])
  have other: "0 \<le> total ?r key" if "key \<noteq> ''battery_energy''"
    using nonneg_except_lookup_default [OF e, of key] that by (simp add: total_def)
  have "0 \<le> total ?r key" if "\<forall>inp \<in> set inps. battery_reading_ok sensors inp"
  proof -
    from that have "inv {} ?r"
      by (intro inv_run inv_init) simp
    then have "nonneg_except {} (energy_sums ?r)"
      by (simp add: inv_def)
    from nonneg_except_lookup_default [OF this, of key] show ?thesis
      by (simp add: total_def)
  qed
  with sums other show ?thesis by blast
qed

theorem totals_and_sums_nonneg_witness:
  "battery_reading_ok sensors_storage input_storage
   \<and> total (run sensors_storage [input_storage] (init_engine 0)) ''battery_energy'' = 2000
   \<and> 0 \<le> total (run sensors_storage [input_storage] (init_engine 0)) ''battery_energy''
   \<and> 0 \<le> pv_sum (run sensors_storage [input_storage] (init_engine 0)) ''battery_energy''
   \<and> 0 \<le> grid_sum (run sensors_storage [input_storage] (init_engine 0)) ''battery_energy''"
proof -
  have ok: "\<forall>inp \<in> set [input_storage]. battery_reading_ok sensors_storage inp"
    by (simp add: battery_reading_ok_def reading_defs sensors_storage_def input_storage_def
        states_storage_def)
  have "total (run sensors_storage [input_storage] (init_engine 0)) ''battery_energy'' = 2000"
    by (simp only: run.simps cycle_eval [OF read_storage])
      (simp add: stage_defs raw_storage_def input_storage_def
        cong: let_weak_cong prod.case_cong_weak)
  with ok totals_and_sums_nonneg
    [of sensors_storage "[input_storage]" 0 "''battery_energy''"]
  show ?thesis by simp
qed

text \<open>
  The claim as stated fails: a storage sensor that reports -1 Wh makes the total
  \<^verbatim>\<open>battery_energy\<close> negative after one cycle from the initial state.
\<close>

theorem battery_total_negative_counterexample:
  "get_value (hass_states input_negative) ''sensor.battery_energy'' = Some (Float (- 1))
   \<and> total (run sensors_storage [input_negative] (init_engine 0)) ''battery_energy'' = - 1
   \<and> total (run sensors_storage [input_negative] (init_engine 0)) ''battery_energy'' < 0"
proof -
  have "get_value (hass_states input_negative) ''sensor.battery_energy'' = Some (Float (- 1))"
    by (simp add: reading_defs input_negative_def states_negative_def)
  moreover
  have "total (run sensors_storage [input_negative] (init_engine 0)) ''battery_energy'' = - 1"
    by (simp only: run.simps cycle_eval [OF read_negative])
      (simp add: stage_defs raw_negative_def input_negative_def
        cong: let_weak_cong prod.case_cong_weak)
  ultimately show ?thesis by simp
qed

subsection \<open>The divisions of the usage fractions\<close>

text \<open>
  C9. The usage fraction of the home account divides the home power by the home power plus
  the car charging power, without a guard. With no car charging sensor and a grid power of
  0 W the home power is 0, the division raises, and the cycle ends with ZeroDivisionError
  instead of using the fraction 1.
\<close>

theorem home_usage_fraction_zero_division:
  "sensors_grid ''car_charging_power'' = None
   \<and> Mapping.lookup_default 0 (momentary raw_zero) ''home_power'' = 0
   \<and> home_mix 1 (s, momentary raw_zero) = Inl ZeroDivisionError
   \<and> snd (cycle sensors_grid input_zero (init_engine 0)) = Inl ZeroDivisionError"
proof -
  have "sensors_grid ''car_charging_power'' = None"
    by (simp add: sensors_grid_def)
  moreover have "Mapping.lookup_default 0 (momentary raw_zero) ''home_power'' = 0"
    "home_mix 1 (s, momentary raw_zero) = Inl ZeroDivisionError"
    by (simp_all add: stage_defs raw_zero_def cong: let_weak_cong prod.case_cong_weak)
  moreover have "snd (cycle sensors_grid input_zero (init_engine 0)) = Inl ZeroDivisionError"
    by (simp only: cycle_eval [OF read_zero])
      (simp add: stage_defs raw_zero_def input_zero_def
        cong: let_weak_cong prod.case_cong_weak)
  ultimately show ?thesis by simp
qed

text \<open>
  C10. In the charging branch of the battery mix the usage factor divides the negated
  battery power by the pv power plus the grid power, without a guard. With an idle battery
  (0 W) and a grid power of 0 W the divisor is 0, the division raises, and the cycle ends
  with ZeroDivisionError.
\<close>

theorem battery_usage_factor_zero_division:
  "Mapping.lookup raw_idle ''battery_power'' = Some 0
   \<and> Mapping.lookup_default 0 (momentary raw_idle) ''pv_power''
       + Mapping.lookup_default 0 (momentary raw_idle) ''grid_power'' = 0
   \<and> battery_mix raw_idle 1 (s, momentary raw_idle) = Inl ZeroDivisionError
   \<and> snd (cycle sensors_battery input_idle (init_engine 0)) = Inl ZeroDivisionError"
proof -
  have "Mapping.lookup raw_idle ''battery_power'' = Some 0"
    "Mapping.lookup_default 0 (momentary raw_idle) ''pv_power''
       + Mapping.lookup_default 0 (momentary raw_idle) ''grid_power'' = 0"
    "battery_mix raw_idle 1 (s, momentary raw_idle) = Inl ZeroDivisionError"
    by (simp_all add: stage_defs raw_idle_def cong: let_weak_cong prod.case_cong_weak)
  moreover
  have "snd (cycle sensors_battery input_idle (init_engine 0)) = Inl ZeroDivisionError"
    by (simp only: cycle_eval [OF read_idle])
      (simp add: stage_defs raw_idle_def input_idle_def
        cong: let_weak_cong prod.case_cong_weak)
  ultimately show ?thesis by simp
qed

end
